theory Spec2Isabelle
  imports Complex_Main
begin

section \<open>Python strings\<close>

text \<open>
  A Python \<^verbatim>\<open>str\<close> is a sequence of Unicode code points. It is modelled as the list of
  these code points, so that the length, the prefix test and \<^verbatim>\<open>strip\<close> see what Python
  sees. \<open>lit\<close> turns a literal of the script, which is ASCII throughout, into such a list.
\<close>

type_synonym str = "nat list"

definition lit :: "string \<Rightarrow> str" where
  "lit s = map of_char s"

text \<open>The decimal digits of an integer, as \<^verbatim>\<open>str(n)\<close> gives them.\<close>

fun str_nat :: "nat \<Rightarrow> str" where
  "str_nat n = (if n < 10 then [48 + n] else str_nat (n div 10) @ [48 + n mod 10])"

declare str_nat.simps [simp del]

definition str_int :: "int \<Rightarrow> str" where
  "str_int i = (if i < 0 then lit ''-'' @ str_nat (nat (- i)) else str_nat (nat i))"

section \<open>Values of a CSV cell\<close>

text \<open>
  The script reads the contact list with \<^verbatim>\<open>pd.read_csv\<close> and walks over the rows with
  \<^verbatim>\<open>df.iterrows()\<close>. \<^verbatim>\<open>read_csv\<close> infers the type of each column, so what
  \<^verbatim>\<open>row.get\<close> hands to the script is a string, the missing value NaN that pandas puts
  where the CSV has nothing, an integer, another float, or a boolean. Of a float other
  than NaN the script uses two things only, which the model keeps: whether it is zero or
  not, and the text that formatting it gives. The three operations the script applies to
  a cell are Python truthiness (\<^verbatim>\<open>not x\<close>), \<^verbatim>\<open>pd.isna\<close> and the formatting of
  an f-string.
\<close>

datatype cell = Str str | NaN | Integer int | Float (nonzero: bool) (shown: str) | Boolean bool

fun truthy :: "cell \<Rightarrow> bool" where
  "truthy (Str s) = (s \<noteq> [])"
| "truthy NaN = True"
| "truthy (Integer i) = (i \<noteq> 0)"
| "truthy (Float nz t) = nz"
| "truthy (Boolean b) = b"

fun isna :: "cell \<Rightarrow> bool" where
  "isna (Str s) = False"
| "isna NaN = True"
| "isna (Integer i) = False"
| "isna (Float nz t) = False"
| "isna (Boolean b) = False"

fun fmt :: "cell \<Rightarrow> str" where
  "fmt (Str s) = s"
| "fmt NaN = lit ''nan''"
| "fmt (Integer i) = str_int i"
| "fmt (Float nz t) = t"
| "fmt (Boolean b) = (if b then lit ''True'' else lit ''False'')"

text \<open>
  A row maps column names to cells; \<^verbatim>\<open>row.get(key, default)\<close> gives the default
  when the CSV has no such column.
\<close>

type_synonym row = "(str \<times> cell) list"

definition row_get :: "row \<Rightarrow> str \<Rightarrow> cell \<Rightarrow> cell" where
  "row_get r key dflt = (case map_of r key of None \<Rightarrow> dflt | Some v \<Rightarrow> v)"

section \<open>Configuration from the environment\<close>

type_synonym environ = "str \<rightharpoonup> str"

definition getenv :: "environ \<Rightarrow> str \<Rightarrow> str \<Rightarrow> str" where
  "getenv env key dflt = (case env key of None \<Rightarrow> dflt | Some v \<Rightarrow> v)"

definition YOUR_NAME :: "environ \<Rightarrow> str" where
  "YOUR_NAME env = getenv env (lit ''YOUR_NAME'') (lit ''Your Full Name'')"

definition YOUR_POSITION :: "environ \<Rightarrow> str" where
  "YOUR_POSITION env = getenv env (lit ''YOUR_POSITION'') (lit ''Your Position/Title'')"

definition YOUR_COMPANY :: "environ \<Rightarrow> str" where
  "YOUR_COMPANY env = getenv env (lit ''YOUR_COMPANY'') (lit ''Your Company/Startup Name'')"

definition YOUR_EMAIL :: "environ \<Rightarrow> str" where
  "YOUR_EMAIL env = getenv env (lit ''YOUR_EMAIL'') (lit ''your.email@example.com'')"

definition YOUR_PHONE :: "environ \<Rightarrow> str" where
  "YOUR_PHONE env = getenv env (lit ''YOUR_PHONE'') (lit ''Your Phone Number'')"

section \<open>The prompt\<close>

definition EMAIL_TEMPLATE :: str where
  "EMAIL_TEMPLATE = lit
    (''\<newline>'' @
     ''Subject: AI-Powered Deal Due Diligence Platform  \<newline>'' @
     ''Dear [Recipient's Name],  \<newline>'' @
     ''I know you're incredibly busy and get a lot of messages, so this will only take 60 seconds to read.  \<newline>'' @
     ''I'm developing a platform that uses AI to streamline and enhance deal due diligence for private credit firms, helping you save time, reduce risk, and identify opportunities faster. The insights we've gained from AI-driven data analysis could be incredibly valuable for your investment process.  \<newline>'' @
     ''Have you ever thought about how AI could transform due diligence for private credit deals? I think our platform could add significant value to your firm, and I'd love to discuss whether you'd be interested in exploring a partnership or pilot.  \<newline>'' @
     ''I totally understand if you're too busy to respond. Even a one or two-line reply will completely make my day.  \<newline>'' @
     ''Best regards,\<newline>'' @
     ''[Your Full Name]\<newline>'' @
     ''[Your Position/Title]\<newline>'' @
     ''[Your Company/Startup Name, if applicable]\<newline>'' @
     ''[Your Email Address]\<newline>'' @
     ''[Your Phone Number, optional]\<newline>'')"

definition prompt :: "environ \<Rightarrow> cell \<Rightarrow> cell \<Rightarrow> cell \<Rightarrow> cell \<Rightarrow> cell \<Rightarrow> str" where
  "prompt env company_name industry_focus contact_name position notes =
     lit ''\<newline>'' @
     lit ''    Generate a personalized email based on the following template and information:\<newline>'' @
     lit ''    \<newline>'' @
     lit ''    Template:\<newline>'' @
     lit ''    '' @ EMAIL_TEMPLATE @ lit ''\<newline>'' @
     lit ''    \<newline>'' @
     lit ''    Information:\<newline>'' @
     lit ''    - Recipient's Company: '' @ fmt company_name @ lit ''\<newline>'' @
     lit ''    - Industry Focus: '' @ fmt industry_focus @ lit ''\<newline>'' @
     lit ''    - Recipient's Name: '' @ fmt contact_name @ lit ''\<newline>'' @
     lit ''    - Recipient's Position: '' @ fmt position @ lit ''\<newline>'' @
     lit ''    - Notes about recipient: '' @
       (if truthy notes \<and> \<not> isna notes then fmt notes else lit ''No specific notes'') @
       lit ''\<newline>'' @
     lit ''    \<newline>'' @
     lit ''    Please personalize the email to make it relevant to their industry focus ('' @
       fmt industry_focus @ lit '') and position ('' @ fmt position @ lit '').\<newline>'' @
     lit ''    Replace [Recipient's Name] with '' @ fmt contact_name @ lit ''.\<newline>'' @
     lit ''    Replace [Your Full Name] with '' @ YOUR_NAME env @ lit ''.\<newline>'' @
     lit ''    Replace [Your Position/Title] with '' @ YOUR_POSITION env @ lit ''.\<newline>'' @
     lit ''    Replace [Your Company/Startup Name, if applicable] with '' @ YOUR_COMPANY env @
       lit ''.\<newline>'' @
     lit ''    Replace [Your Email Address] with '' @ YOUR_EMAIL env @ lit ''.\<newline>'' @
     lit ''    Replace [Your Phone Number, optional] with '' @ YOUR_PHONE env @
       lit ''.\<newline>'' @
     lit ''    \<newline>'' @
     lit ''    Make the email concise, professional, and personalized based on the recipient's information.\<newline>'' @
     lit ''    ''"

section \<open>The external generation endpoint\<close>

text \<open>
  One request of \<^verbatim>\<open>client.chat.completions.create\<close>: the model, the two messages (role and
  content), the bound on the output length and the sampling temperature.
\<close>

record request =
  req_model :: str
  req_messages :: "(str \<times> str) list"
  req_max_tokens :: nat
  req_temperature :: rat

definition chat_request :: "str \<Rightarrow> str \<Rightarrow> request" where
  "chat_request mdl user_prompt =
     \<lparr>req_model = mdl,
      req_messages =
        [(lit ''system'', lit ''You are an assistant that generates personalized professional emails.''),
         (lit ''user'', user_prompt)],
      req_max_tokens = 1000,
      req_temperature = 7 / 10\<rparr>"

text \<open>
  What the body of the \<^verbatim>\<open>try\<close> block yields for one attempt: the text of the first choice
  (before \<^verbatim>\<open>.strip()\<close>), or an exception caught by \<^verbatim>\<open>except Exception as e\<close>, kept as
  the text that \<^verbatim>\<open>{e}\<close> formats to. The endpoint is a parameter of the model: its answer
  may depend on how many calls the run has made before and on the request. What
  \<^verbatim>\<open>except Exception\<close> does not catch (an interrupt from the keyboard, an exit) ends the
  program and is outside the model.
\<close>

datatype outcome = Content str | Raises str

type_synonym client = "nat \<Rightarrow> request \<Rightarrow> outcome"

text \<open>
  The observable effects of a run, in the order they happen: calls of the endpoint and
  blocking waits (\<^verbatim>\<open>time.sleep\<close>, in seconds). Console messages other than the final
  summary are not part of the model.
\<close>

datatype event = is_Call: Call request | Sleep rat

type_synonym world = "event list"

definition calls :: "world \<Rightarrow> nat" where
  "calls w = length (filter is_Call w)"

section \<open>String operations\<close>

text \<open>
  \<^verbatim>\<open>str.strip()\<close> removes the leading and the trailing whitespace, where whitespace is
  what \<^verbatim>\<open>str.isspace\<close> accepts: the code points U+0009 to U+000D, U+001C to U+0020,
  U+0085, U+00A0, U+1680, U+2000 to U+200A, U+2028, U+2029, U+202F, U+205F and U+3000.
\<close>

definition isspace :: "nat \<Rightarrow> bool" where
  "isspace c =
     ((0x09 \<le> c \<and> c \<le> 0x0D) \<or> (0x1C \<le> c \<and> c \<le> 0x20) \<or> c = 0x85 \<or> c = 0xA0 \<or>
      c = 0x1680 \<or> (0x2000 \<le> c \<and> c \<le> 0x200A) \<or> c = 0x2028 \<or> c = 0x2029 \<or>
      c = 0x202F \<or> c = 0x205F \<or> c = 0x3000)"

definition strip :: "str \<Rightarrow> str" where
  "strip s = rev (dropWhile isspace (rev (dropWhile isspace s)))"

definition startswith :: "str \<Rightarrow> str \<Rightarrow> bool" where
  "startswith s pre = (take (length pre) s = pre)"

section \<open>generate_email\<close>

definition max_retries :: nat where
  "max_retries = 3"

text \<open>
  The loop \<^verbatim>\<open>for attempt in range(max_retries)\<close>, over the attempts still to make, with
  the current \<^verbatim>\<open>retry_delay\<close>. A loop that ends without returning makes the function
  return None.
\<close>

fun retry_loop :: "client \<Rightarrow> request \<Rightarrow> nat list \<Rightarrow> int \<Rightarrow> world \<Rightarrow> str option \<times> world" where
  "retry_loop cl rq [] retry_delay w = (None, w)"
| "retry_loop cl rq (attempt # rest) retry_delay w =
     (case cl (calls w) rq of
        Content text \<Rightarrow> (Some (strip text), w @ [Call rq])
      | Raises e \<Rightarrow>
          if attempt < max_retries - 1
          then retry_loop cl rq rest (retry_delay * 2) (w @ [Call rq, Sleep (of_int retry_delay)])
          else (Some (lit ''Error generating email: '' @ e), w @ [Call rq]))"

definition generate_email ::
  "client \<Rightarrow> environ \<Rightarrow> cell \<Rightarrow> cell \<Rightarrow> cell \<Rightarrow> cell \<Rightarrow> cell \<Rightarrow> str \<Rightarrow> world
     \<Rightarrow> str option \<times> world" where
  "generate_email cl env company_name industry_focus contact_name position notes mdl w =
     (if \<not> truthy contact_name \<or> isna contact_name then (None, w)
      else retry_loop cl
             (chat_request mdl (prompt env company_name industry_focus contact_name position notes))
             [0..<max_retries] 5 w)"

section \<open>main\<close>

text \<open>The command-line arguments, as \<^verbatim>\<open>argparse\<close> delivers them.\<close>

record args =
  input_csv_path :: str
  output_csv_path :: str
  model :: str
  limit :: int
  dry_run :: bool

text \<open>One entry of \<^verbatim>\<open>output_data\<close>, a row of the output CSV.\<close>

record generated =
  Company_Name :: cell
  Contact_Name :: cell
  Email_Content :: str

text \<open>The variables that the loop over the rows updates, and the effects so far.\<close>

record loop_state =
  total_contacts :: int
  successful_emails :: int
  output_data :: "generated list"
  trace :: world

text \<open>
  The test of line 158,
  \<^verbatim>\<open>email_content and not email_content.startswith("Error generating email")\<close>:
  None and the empty string are falsy.
\<close>

definition usable :: "str option \<Rightarrow> bool" where
  "usable email_content =
     (case email_content of
        None \<Rightarrow> False
      | Some s \<Rightarrow> s \<noteq> [] \<and> \<not> startswith s (lit ''Error generating email''))"

text \<open>
  Lines 150 to 156: the content for a row that is not skipped, simulated in a dry run
  and requested from the endpoint otherwise.
\<close>

definition email_for ::
  "client \<Rightarrow> environ \<Rightarrow> args \<Rightarrow> cell \<Rightarrow> cell \<Rightarrow> cell \<Rightarrow> cell \<Rightarrow> cell \<Rightarrow> loop_state
     \<Rightarrow> str option \<times> loop_state" where
  "email_for cl env a company_name industry_focus contact_name position notes st =
     (if dry_run a
      then (Some (lit ''[DRY RUN] Sample email for '' @ fmt contact_name),
            st\<lparr>successful_emails := successful_emails st + 1\<rparr>)
      else (case generate_email cl env company_name industry_focus contact_name position notes
                   (model a) (trace st) of
              (email_content, w) \<Rightarrow> (email_content, st\<lparr>trace := w\<rparr>)))"

text \<open>Lines 158 to 168: the accounting of one content.\<close>

definition record_email :: "args \<Rightarrow> cell \<Rightarrow> cell \<Rightarrow> str option \<Rightarrow> loop_state \<Rightarrow> loop_state" where
  "record_email a company_name contact_name email_content st =
     (if usable email_content
      then st\<lparr>successful_emails := successful_emails st + 1,
              output_data := output_data st @
                [\<lparr>Company_Name = company_name, Contact_Name = contact_name,
                  Email_Content = the email_content\<rparr>],
              trace := (if \<not> dry_run a then trace st @ [Sleep (1 / 2)] else trace st)\<rparr>
      else st)"

text \<open>The body of the loop, lines 136 to 168.\<close>

definition process_row :: "client \<Rightarrow> environ \<Rightarrow> args \<Rightarrow> row \<Rightarrow> loop_state \<Rightarrow> loop_state" where
  "process_row cl env a r st =
     (let company_name = row_get r (lit ''Company Name'') (Str []);
          industry_focus = row_get r (lit ''Industry Focus'') (Str []);
          contact_name = row_get r (lit ''Contact Name'') (Str []);
          position = row_get r (lit ''Position / Role'') (Str []);
          notes = row_get r (lit ''Notes'') (Str [])
      in if \<not> truthy contact_name \<or> isna contact_name then st
         else (case email_for cl env a company_name industry_focus contact_name position notes
                      (st\<lparr>total_contacts := total_contacts st + 1\<rparr>) of
                 (email_content, st') \<Rightarrow> record_email a company_name contact_name email_content st'))"

fun process_rows :: "client \<Rightarrow> environ \<Rightarrow> args \<Rightarrow> row list \<Rightarrow> loop_state \<Rightarrow> loop_state" where
  "process_rows cl env a [] st = st"
| "process_rows cl env a (r # rs) st = process_rows cl env a rs (process_row cl env a r st)"

text \<open>
  What a run that reaches its end leaves behind: the three numbers of the printed summary
  and the rows written to the output CSV (None when no file is written).
\<close>

record run =
  summary_total :: int
  summary_successful :: int
  summary_failed :: int
  csv_written :: "generated list option"

text \<open>
  \<^verbatim>\<open>main\<close>, from the reading of the CSV on. The reading either fails with a message, and
  the function returns at once, or gives the rows of the data frame. The writing of the
  output file is taken to succeed.
\<close>

definition main :: "client \<Rightarrow> environ \<Rightarrow> args \<Rightarrow> str + row list \<Rightarrow> world \<Rightarrow> run option \<times> world" where
  "main cl env a read_csv w =
     (case read_csv of
        Inl e \<Rightarrow> (None, w)
      | Inr df \<Rightarrow>
          (let df' = (if limit a > 0 then take (nat (limit a)) df else df);
               st = process_rows cl env a df'
                      \<lparr>total_contacts = 0, successful_emails = 0, output_data = [], trace = w\<rparr>
           in (Some \<lparr>summary_total = total_contacts st,
                     summary_successful = successful_emails st,
                     summary_failed = total_contacts st - successful_emails st,
                     csv_written = (if output_data st \<noteq> [] then Some (output_data st) else None)\<rparr>,
               trace st)))"

section \<open>Notions of the specification\<close>

text \<open>
  The presence test of the script, in words: a record has a contact name when its row
  has the column and the cell holds a string that is not empty, a number other than zero,
  or the boolean True. The empty string, NaN, zero and False do not count, and neither
  does a missing column.
\<close>

definition has_contact_name :: "row \<Rightarrow> bool" where
  "has_contact_name r =
     (case map_of r (lit ''Contact Name'') of
        None \<Rightarrow> False
      | Some (Str s) \<Rightarrow> s \<noteq> []
      | Some NaN \<Rightarrow> False
      | Some (Integer i) \<Rightarrow> i \<noteq> 0
      | Some (Float nz t) \<Rightarrow> nz
      | Some (Boolean b) \<Rightarrow> b)"

text \<open>
  A record whose contact-name field is not empty in the CSV: the row has the column and
  the cell is not NaN and not the empty string. A field that \<^verbatim>\<open>read_csv\<close> has turned
  into a number or a boolean was not empty.
\<close>

definition contact_name_given :: "row \<Rightarrow> bool" where
  "contact_name_given r =
     (case map_of r (lit ''Contact Name'') of
        None \<Rightarrow> False
      | Some (Str s) \<Rightarrow> s \<noteq> []
      | Some NaN \<Rightarrow> False
      | Some (Integer i) \<Rightarrow> True
      | Some (Float nz t) \<Rightarrow> True
      | Some (Boolean b) \<Rightarrow> True)"

text \<open>The fields that the loop reads from a row, and the request sent for it.\<close>

abbreviation company_of :: "row \<Rightarrow> cell" where
  "company_of r \<equiv> row_get r (lit ''Company Name'') (Str [])"

abbreviation industry_of :: "row \<Rightarrow> cell" where
  "industry_of r \<equiv> row_get r (lit ''Industry Focus'') (Str [])"

abbreviation contact_of :: "row \<Rightarrow> cell" where
  "contact_of r \<equiv> row_get r (lit ''Contact Name'') (Str [])"

abbreviation position_of :: "row \<Rightarrow> cell" where
  "position_of r \<equiv> row_get r (lit ''Position / Role'') (Str [])"

abbreviation notes_of :: "row \<Rightarrow> cell" where
  "notes_of r \<equiv> row_get r (lit ''Notes'') (Str [])"

definition row_request :: "environ \<Rightarrow> args \<Rightarrow> row \<Rightarrow> request" where
  "row_request env a r =
     chat_request (model a)
       (prompt env (company_of r) (industry_of r) (contact_of r) (position_of r) (notes_of r))"

text \<open>The rows that the loop walks over: all of them, or the first \<open>limit\<close> ones.\<close>

definition considered :: "args \<Rightarrow> row list \<Rightarrow> row list" where
  "considered a df = (if limit a > 0 then take (nat (limit a)) df else df)"

text \<open>The calls and the waits of a trace, without the requests.\<close>

fun waited :: "event \<Rightarrow> rat option" where
  "waited (Call rq) = None"
| "waited (Sleep d) = Some d"

section \<open>Example inputs\<close>

text \<open>
  Two contacts with a name, one row whose name cell is empty in the CSV, the arguments
  of a live run and of a dry run with the defaults of the command line, and three
  behaviours of the endpoint.
\<close>

definition ada :: row where
  "ada = [(lit ''Company Name'', Str (lit ''Acme Credit'')), (lit ''Industry Focus'', Str (lit ''Private credit'')),
          (lit ''Contact Name'', Str (lit ''Ada'')), (lit ''Position / Role'', Str (lit ''Partner'')), (lit ''Notes'', NaN)]"

definition bea :: row where
  "bea = [(lit ''Company Name'', Str (lit ''Birch Capital'')), (lit ''Industry Focus'', NaN),
          (lit ''Contact Name'', Str (lit ''Bea'')), (lit ''Position / Role'', NaN), (lit ''Notes'', NaN)]"

definition nameless :: row where
  "nameless = [(lit ''Company Name'', Str (lit ''Cedar Lending'')), (lit ''Industry Focus'', NaN),
               (lit ''Contact Name'', NaN), (lit ''Position / Role'', NaN), (lit ''Notes'', NaN)]"

definition zero_named :: row where
  "zero_named = [(lit ''Company Name'', Str (lit ''Dune Partners'')), (lit ''Industry Focus'', NaN),
                 (lit ''Contact Name'', Integer 0), (lit ''Position / Role'', NaN),
                 (lit ''Notes'', NaN)]"

definition live_args :: args where
  "live_args =
     \<lparr>input_csv_path = lit ''Automate_email/Private Credit Leads - Private Credit Leads.csv'',
      output_csv_path = lit ''Generated_Emails.csv'', model = lit ''gpt-4'', limit = 0,
      dry_run = False\<rparr>"

definition dry_args :: args where
  "dry_args = live_args\<lparr>dry_run := True\<rparr>"

definition start :: "world \<Rightarrow> loop_state" where
  "start w = \<lparr>total_contacts = 0, successful_emails = 0, output_data = [], trace = w\<rparr>"

definition always_fails :: client where
  "always_fails k rq = Raises (lit ''timeout'')"

definition fails_twice :: client where
  "fails_twice k rq = (if k < 2 then Raises (lit ''timeout'') else Content (lit '' Dear Ada, ''))"

definition fails_thrice :: client where
  "fails_thrice k rq = (if k < 3 then Raises (lit ''timeout'') else Content (lit ''Dear Bea,''))"

definition answers_with_prefix :: client where
  "answers_with_prefix k rq = Content (lit ''Error generating email campaigns is common, Ada.'')"

section \<open>Counting calls\<close>

lemma calls_Nil [simp]: "calls [] = 0"
  by (simp add: calls_def)

lemma calls_Call [simp]: "calls (Call rq # w) = Suc (calls w)"
  by (simp add: calls_def)

lemma calls_Sleep [simp]: "calls (Sleep d # w) = calls w"
  by (simp add: calls_def)

lemma calls_append [simp]: "calls (w @ v) = calls w + calls v"
  by (simp add: calls_def)

section \<open>The retry loop\<close>

lemma attempts_list: "[0..<max_retries] = [0, 1, 2]"
  by (simp add: max_retries_def upt_conv_Cons)

lemma upt_three: "[0..<3] = [0, 1, 2]"
  by (simp add: upt_conv_Cons)



section \<open>One row\<close>

lemma skip_test: "(\<not> truthy (contact_of r) \<or> isna (contact_of r)) = (\<not> has_contact_name r)"
  by (simp add: has_contact_name_def row_get_def split: option.splits cell.splits)

lemma process_row_skip: "\<not> has_contact_name r \<Longrightarrow> process_row cl env a r st = st"
  using skip_test [of r] by (simp add: process_row_def)

lemma process_row_named:
  "has_contact_name r \<Longrightarrow>
   process_row cl env a r st =
     (case email_for cl env a (company_of r) (industry_of r) (contact_of r) (position_of r)
             (notes_of r) (st\<lparr>total_contacts := total_contacts st + 1\<rparr>) of
        (email_content, st') \<Rightarrow> record_email a (company_of r) (contact_of r) email_content st')"
  using skip_test [of r] by (simp add: process_row_def Let_def)

lemma generate_named:
  assumes "has_contact_name r"
  shows "generate_email cl env (company_of r) (industry_of r) (contact_of r) (position_of r)
           (notes_of r) (model a) w = retry_loop cl (row_request env a r) [0..<max_retries] 5 w"
  using assms skip_test [of r] by (simp add: generate_email_def row_request_def)

lemma usable_dry: "usable (Some (lit ''[DRY RUN] Sample email for '' @ n))"
  by (simp add: usable_def startswith_def lit_def)


lemma dry_row:
  assumes "dry_run a" and "has_contact_name r"
  shows "process_row cl env a r st =
           st\<lparr>total_contacts := total_contacts st + 1,
              successful_emails := successful_emails st + 2,
              output_data := output_data st @
                [\<lparr>Company_Name = company_of r, Contact_Name = contact_of r,
                  Email_Content = lit ''[DRY RUN] Sample email for '' @ fmt (contact_of r)\<rparr>]\<rparr>"
  using assms usable_dry [of "fmt (contact_of r)"]
  by (simp add: process_row_named email_for_def record_email_def)

lemma live_row:
  assumes "has_contact_name r" and "\<not> dry_run a"
    and "generate_email cl env (company_of r) (industry_of r) (contact_of r) (position_of r)
           (notes_of r) (model a) (trace st) = (email_content, w)"
  shows "process_row cl env a r st =
          (if usable email_content
           then st\<lparr>total_contacts := total_contacts st + 1,
                   successful_emails := successful_emails st + 1,
                   output_data := output_data st @
                     [\<lparr>Company_Name = company_of r, Contact_Name = contact_of r,
                       Email_Content = the email_content\<rparr>],
                   trace := w @ [Sleep (1 / 2)]\<rparr>
           else st\<lparr>total_contacts := total_contacts st + 1, trace := w\<rparr>)"
  using assms by (simp add: process_row_named email_for_def record_email_def)

lemma total_record_email: "total_contacts (record_email a c n e st) = total_contacts st"
  by (simp add: record_email_def)

lemma total_email_for:
  "email_for cl env a c i n p no st = (e, st') \<Longrightarrow> total_contacts st' = total_contacts st"
  by (auto simp: email_for_def split: if_splits prod.splits)

lemma total_process_row:
  "total_contacts (process_row cl env a r st) =
     total_contacts st + (if has_contact_name r then 1 else 0)"
proof (cases "has_contact_name r")
  case True
  obtain e st' where ef: "email_for cl env a (company_of r) (industry_of r) (contact_of r)
      (position_of r) (notes_of r) (st\<lparr>total_contacts := total_contacts st + 1\<rparr>) = (e, st')"
    by (cases "email_for cl env a (company_of r) (industry_of r) (contact_of r)
      (position_of r) (notes_of r) (st\<lparr>total_contacts := total_contacts st + 1\<rparr>)")
  from total_email_for [OF ef] True ef show ?thesis
    by (simp add: process_row_named total_record_email)
next
  case False
  then show ?thesis by (simp add: process_row_skip)
qed

lemma record_email_limit: "record_email (a\<lparr>limit := n\<rparr>) c k e st = record_email a c k e st"
  by (simp add: record_email_def)

lemma email_for_limit:
  "email_for cl env (a\<lparr>limit := n\<rparr>) c i k p no st = email_for cl env a c i k p no st"
  by (simp add: email_for_def)

lemma process_row_limit: "process_row cl env (a\<lparr>limit := n\<rparr>) r st = process_row cl env a r st"
  by (simp add: process_row_def Let_def email_for_limit record_email_limit split: prod.splits)

lemma output_named_row:
  assumes "\<forall>g \<in> set (output_data st). truthy (Contact_Name g) \<and> \<not> isna (Contact_Name g)"
  shows "\<forall>g \<in> set (output_data (process_row cl env a r st)).
           truthy (Contact_Name g) \<and> \<not> isna (Contact_Name g)"
proof (cases "has_contact_name r")
  case True
  then have n: "truthy (contact_of r) \<and> \<not> isna (contact_of r)"
    using skip_test [of r] by simp
  show ?thesis
    using assms n True
    by (auto simp: process_row_named email_for_def record_email_def split: prod.splits if_splits)
next
  case False
  then show ?thesis using assms by (simp add: process_row_skip)
qed

section \<open>The loop and the run\<close>

lemma process_rows_append:
  "process_rows cl env a (xs @ ys) st = process_rows cl env a ys (process_rows cl env a xs st)"
  by (induction xs arbitrary: st) simp_all

lemma process_rows_limit:
  "process_rows cl env (a\<lparr>limit := n\<rparr>) rs st = process_rows cl env a rs st"
  by (induction rs arbitrary: st) (simp_all add: process_row_limit)

lemma total_process_rows:
  "total_contacts (process_rows cl env a rs st) =
     total_contacts st + int (length (filter has_contact_name rs))"
  by (induction rs arbitrary: st) (simp_all add: total_process_row)

lemma output_named_rows:
  "\<forall>g \<in> set (output_data st). truthy (Contact_Name g) \<and> \<not> isna (Contact_Name g) \<Longrightarrow>
   \<forall>g \<in> set (output_data (process_rows cl env a rs st)).
      truthy (Contact_Name g) \<and> \<not> isna (Contact_Name g)"
proof (induction rs arbitrary: st)
  case Nil
  then show ?case by simp
next
  case (Cons r rs)
  have "\<forall>g \<in> set (output_data (process_row cl env a r st)).
      truthy (Contact_Name g) \<and> \<not> isna (Contact_Name g)"
    by (rule output_named_row [OF Cons.prems])
  from Cons.IH [OF this] show ?case by simp
qed

lemma dry_rows:
  assumes "dry_run a"
  shows "trace (process_rows cl env a rs st) = trace st
    \<and> successful_emails (process_rows cl env a rs st) =
        successful_emails st + 2 * int (length (filter has_contact_name rs))
    \<and> length (output_data (process_rows cl env a rs st)) =
        length (output_data st) + length (filter has_contact_name rs)"
proof (induction rs arbitrary: st)
  case Nil
  show ?case by simp
next
  case (Cons r rs)
  show ?case
  proof (cases "has_contact_name r")
    case True
    show ?thesis
      using Cons.IH [of "process_row cl env a r st"] True
      by (simp add: dry_row [OF assms True])
  next
    case False
    then show ?thesis using Cons.IH [of st] by (simp add: process_row_skip)
  qed
qed

lemma main_run:
  "main cl env a (Inr df) w =
     (let st = process_rows cl env a (considered a df) (start w)
      in (Some \<lparr>summary_total = total_contacts st,
                summary_successful = successful_emails st,
                summary_failed = total_contacts st - successful_emails st,
                csv_written = (if output_data st \<noteq> [] then Some (output_data st) else None)\<rparr>,
          trace st))"
  by (simp add: main_def considered_def Let_def start_def)

lemma main_considered:
  "main cl env a (Inr df) w = main cl env (a\<lparr>limit := 0\<rparr>) (Inr (considered a df)) w"
  by (simp add: main_def considered_def process_rows_limit)

section \<open>Evaluation of the examples\<close>

lemma named_examples: "has_contact_name ada" "has_contact_name bea" "\<not> has_contact_name nameless"
  "\<not> has_contact_name zero_named"
  by (simp_all add: has_contact_name_def ada_def bea_def nameless_def zero_named_def lit_def)

lemma str_int_examples:
  "str_int 0 = lit ''0''" "str_int 2024 = lit ''2024''" "str_int (- 120) = lit ''-120''"
  by (simp_all add: str_int_def str_nat.simps lit_def)

lemma strip_unicode_whitespace:
  "strip ([0xA0, 0x2003] @ lit ''Dear Ada,'' @ [0x85, 0x3000, 0x0A]) = lit ''Dear Ada,''"
  by (simp add: strip_def isspace_def lit_def)

lemma blank_reply_unusable: "\<not> usable (Some (strip [0xA0, 0x20, 0x2028]))"
  by (simp add: usable_def strip_def isspace_def)

lemmas run_simps = main_run considered_def start_def Let_def process_row_def email_for_def
  record_email_def generate_email_def max_retries_def upt_three row_get_def usable_def
  startswith_def strip_def isspace_def row_request_def lit_def

section \<open>The claims\<close>

text \<open>
  C1. In a dry run the endpoint is never called (the trace of the run is the trace it
  started with) and every row with a contact name, among the rows considered, gets an
  entry in the output. The successful count, however, is twice the total count, not
  equal to it: line 154 increments it in the dry-run branch and line 159 increments it
  again when the simulated content passes the test of line 158. The claimed equality of
  the two counts therefore fails as soon as one row has a contact name.
\<close>

theorem dry_run_counts_every_row_twice:
  assumes "dry_run a"
  shows "\<exists>res. main cl env a (Inr df) w = (Some res, w)
    \<and> summary_total res = int (length (filter has_contact_name (considered a df)))
    \<and> summary_successful res = 2 * summary_total res
    \<and> length (case csv_written res of None \<Rightarrow> [] | Some gs \<Rightarrow> gs) =
        length (filter has_contact_name (considered a df))"
  using dry_rows [OF assms, of cl env "considered a df" "start w"]
  by (auto simp: main_run Let_def total_process_rows start_def)

theorem dry_run_counts_every_row_twice_witness:
  "dry_run dry_args \<and>
   main always_fails Map.empty dry_args (Inr [ada]) [] =
     (Some \<lparr>summary_total = 1, summary_successful = 2, summary_failed = - 1,
            csv_written = Some [\<lparr>Company_Name = Str (lit ''Acme Credit''), Contact_Name = Str (lit ''Ada''),
                                 Email_Content = lit ''[DRY RUN] Sample email for Ada''\<rparr>]\<rparr>, [])"
proof -
  have d: "dry_run dry_args"
    by (simp add: dry_args_def)
  obtain res where r: "main always_fails Map.empty dry_args (Inr [ada]) [] = (Some res, [])"
    and s: "summary_successful res = 2 * summary_total res"
    using dry_run_counts_every_row_twice [OF d, of always_fails Map.empty "[ada]" "[]"] by blast
  have "main always_fails Map.empty dry_args (Inr [ada]) [] =
     (Some \<lparr>summary_total = 1, summary_successful = 2, summary_failed = - 1,
            csv_written = Some [\<lparr>Company_Name = Str (lit ''Acme Credit''), Contact_Name = Str (lit ''Ada''),
                                 Email_Content = lit ''[DRY RUN] Sample email for Ada''\<rparr>]\<rparr>, [])"
    by (simp add: run_simps dry_args_def live_args_def ada_def)
  with d r s show ?thesis by simp
qed






text \<open>
  C4. For every row that is processed (it has a contact name), the successful count
  grows if and only if the content obtained for the row is non-empty and does not begin
  with the marker prefix; exactly then the row gets an entry in the output. Otherwise the
  row is counted in the total only, so the failed count of the summary grows by one.
  The test looks only at the text: a reply of the endpoint that begins with the prefix is
  treated as a failure, as the example shows.
\<close>

theorem counted_successful_iff_usable:
  assumes "has_contact_name r"
    and "email_for cl env a (company_of r) (industry_of r) (contact_of r) (position_of r)
           (notes_of r) (st\<lparr>total_contacts := total_contacts st + 1\<rparr>) = (email_content, st1)"
  shows "(successful_emails st < successful_emails (process_row cl env a r st)) =
           usable email_content
    \<and> output_data (process_row cl env a r st) =
         (if usable email_content
          then output_data st @ [\<lparr>Company_Name = company_of r, Contact_Name = contact_of r,
                                   Email_Content = the email_content\<rparr>]
          else output_data st)
    \<and> (\<not> usable email_content \<longrightarrow>
          successful_emails (process_row cl env a r st) = successful_emails st
          \<and> total_contacts (process_row cl env a r st) = total_contacts st + 1)"
proof (cases "dry_run a")
  case True
  from assms(2) True
  have e: "email_content = Some (lit ''[DRY RUN] Sample email for '' @ fmt (contact_of r))"
    by (simp add: email_for_def)
  show ?thesis
    unfolding dry_row [OF True assms(1)]
    using usable_dry [of "fmt (contact_of r)"] by (simp add: e)
next
  case False
  obtain w where g: "generate_email cl env (company_of r) (industry_of r) (contact_of r)
      (position_of r) (notes_of r) (model a) (trace st) = (email_content, w)"
    using assms(2) False by (auto simp: email_for_def split: prod.splits)
  show ?thesis
    unfolding live_row [OF assms(1) False g] by simp
qed

theorem counted_successful_iff_usable_witness:
  "has_contact_name ada
   \<and> email_for answers_with_prefix Map.empty live_args (company_of ada) (industry_of ada)
        (contact_of ada) (position_of ada) (notes_of ada)
        ((start [])\<lparr>total_contacts := total_contacts (start []) + 1\<rparr>) =
        (Some (lit ''Error generating email campaigns is common, Ada.''),
         \<lparr>total_contacts = 1, successful_emails = 0, output_data = [],
          trace = [Call (row_request Map.empty live_args ada)]\<rparr>)
   \<and> \<not> usable (Some (lit ''Error generating email campaigns is common, Ada.''))
   \<and> successful_emails (process_row answers_with_prefix Map.empty live_args ada (start [])) = 0
   \<and> total_contacts (process_row answers_with_prefix Map.empty live_args ada (start [])) = 1
   \<and> output_data (process_row answers_with_prefix Map.empty live_args ada (start [])) = []"
proof -
  have e: "email_for answers_with_prefix Map.empty live_args (company_of ada) (industry_of ada)
        (contact_of ada) (position_of ada) (notes_of ada)
        ((start [])\<lparr>total_contacts := total_contacts (start []) + 1\<rparr>) =
        (Some (lit ''Error generating email campaigns is common, Ada.''),
         \<lparr>total_contacts = 1, successful_emails = 0, output_data = [],
          trace = [Call (row_request Map.empty live_args ada)]\<rparr>)"
  proof -
    have g: "generate_email answers_with_prefix Map.empty (company_of ada) (industry_of ada)
        (contact_of ada) (position_of ada) (notes_of ada) (model live_args) [] =
        (Some (lit ''Error generating email campaigns is common, Ada.''),
         [Call (row_request Map.empty live_args ada)])"
      unfolding generate_named [OF named_examples(1)] attempts_list
      by (simp add: answers_with_prefix_def strip_def isspace_def lit_def)
    have d: "\<not> dry_run live_args"
      by (simp add: live_args_def)
    show ?thesis using g d by (simp add: email_for_def start_def)
  qed
  have u: "\<not> usable (Some (lit ''Error generating email campaigns is common, Ada.''))"
    by (simp add: usable_def startswith_def lit_def)
  from counted_successful_iff_usable [OF named_examples(1) e] u
  have "successful_emails (process_row answers_with_prefix Map.empty live_args ada (start [])) = 0
   \<and> total_contacts (process_row answers_with_prefix Map.empty live_args ada (start [])) = 1
   \<and> output_data (process_row answers_with_prefix Map.empty live_args ada (start [])) = []"
    by (simp add: start_def)
  with e u named_examples(1) show ?thesis by simp
qed

text \<open>
  C5, as the code has it. When the loop over the rows considered (all rows, or the first
  \<open>limit\<close> rows when a positive limit is set) has ended, its total-contacts counter is the
  number of considered rows whose contact name passes the presence test of line 143: a
  non-empty string, a number other than zero, or True. The summary of a run shows this
  number. This holds in a live run and in a dry run, for any behaviour of the endpoint.
\<close>

theorem total_contacts_counts_named_rows:
  "total_contacts (process_rows cl env a (considered a df) (start w)) =
     int (length (filter has_contact_name (considered a df)))
   \<and> (\<forall>res w'. main cl env a (Inr df) w = (Some res, w') \<longrightarrow>
         summary_total res = int (length (filter has_contact_name (considered a df))))"
  by (simp add: main_run Let_def total_process_rows start_def)

theorem total_contacts_counts_named_rows_witness:
  "filter has_contact_name (considered (live_args\<lparr>limit := 3\<rparr>) [ada, zero_named, nameless, bea]) =
     [ada]
   \<and> total_contacts (process_rows fails_twice Map.empty (live_args\<lparr>limit := 3\<rparr>)
        (considered (live_args\<lparr>limit := 3\<rparr>) [ada, zero_named, nameless, bea]) (start [])) = 1
   \<and> fst (main fails_twice Map.empty (live_args\<lparr>limit := 3\<rparr>)
          (Inr [ada, zero_named, nameless, bea]) []) =
       Some \<lparr>summary_total = 1, summary_successful = 1, summary_failed = 0,
             csv_written = Some [\<lparr>Company_Name = Str (lit ''Acme Credit''),
                                  Contact_Name = Str (lit ''Ada''),
                                  Email_Content = lit ''Dear Ada,''\<rparr>]\<rparr>"
proof -
  have f: "filter has_contact_name
      (considered (live_args\<lparr>limit := 3\<rparr>) [ada, zero_named, nameless, bea]) = [ada]"
    by (simp add: considered_def named_examples)
  have t: "total_contacts (process_rows fails_twice Map.empty (live_args\<lparr>limit := 3\<rparr>)
        (considered (live_args\<lparr>limit := 3\<rparr>) [ada, zero_named, nameless, bea]) (start [])) = 1"
    using total_contacts_counts_named_rows
      [of fails_twice Map.empty "live_args\<lparr>limit := 3\<rparr>" "[ada, zero_named, nameless, bea]" "[]"]
    unfolding f by simp
  have "fst (main fails_twice Map.empty (live_args\<lparr>limit := 3\<rparr>)
          (Inr [ada, zero_named, nameless, bea]) []) =
       Some \<lparr>summary_total = 1, summary_successful = 1, summary_failed = 0,
             csv_written = Some [\<lparr>Company_Name = Str (lit ''Acme Credit''),
                                  Contact_Name = Str (lit ''Ada''),
                                  Email_Content = lit ''Dear Ada,''\<rparr>]\<rparr>"
    by (simp add: run_simps fails_twice_def live_args_def ada_def zero_named_def nameless_def)
  with f t show ?thesis by simp
qed

text \<open>
  The claim C5 as stated counts the records whose contact-name field is not empty. It
  fails for a field that \<^verbatim>\<open>read_csv\<close> reads as the number zero: with the single record
  of Dune Partners, whose contact name is \<^verbatim>\<open>0\<close>, one record has a non-empty contact
  name, and the run counts no contact at all, since \<^verbatim>\<open>not contact_name\<close> holds of 0.
\<close>

theorem zero_contact_name_is_not_counted:
  "length (filter contact_name_given (considered live_args [zero_named])) = 1
   \<and> main always_fails Map.empty live_args (Inr [zero_named]) [] =
       (Some \<lparr>summary_total = 0, summary_successful = 0, summary_failed = 0,
              csv_written = None\<rparr>, [])"
proof -
  have "contact_name_given zero_named"
    by (simp add: contact_name_given_def zero_named_def lit_def)
  moreover have "main always_fails Map.empty live_args (Inr [zero_named]) [] =
       (Some \<lparr>summary_total = 0, summary_successful = 0, summary_failed = 0,
              csv_written = None\<rparr>, [])"
    by (simp add: run_simps live_args_def zero_named_def)
  ultimately show ?thesis
    by (simp add: considered_def live_args_def)
qed

text \<open>
  C6. Every run that reads its input reaches the summary, and there the successful
  count plus the failed count is the total count, in a live run and in a dry run alike:
  line 182 prints the failed count as the difference of the other two. (In a dry run
  that difference is negative, see C1.)
\<close>

theorem successful_plus_failed_is_total:
  "\<exists>res w'. main cl env a (Inr df) w = (Some res, w') \<and>
     summary_successful res + summary_failed res = summary_total res"
  by (simp add: main_run Let_def)

theorem successful_plus_failed_is_total_witness:
  "\<exists>res w'. main fails_thrice Map.empty live_args (Inr [ada, bea]) [] = (Some res, w') \<and>
     summary_successful res + summary_failed res = summary_total res \<and>
     summary_total res = 2 \<and> summary_successful res = 1 \<and> summary_failed res = 1"
proof -
  obtain res w' where m: "main fails_thrice Map.empty live_args (Inr [ada, bea]) [] = (Some res, w')"
    and s: "summary_successful res + summary_failed res = summary_total res"
    using successful_plus_failed_is_total [of fails_thrice Map.empty live_args "[ada, bea]" "[]"]
    by blast
  have "fst (main fails_thrice Map.empty live_args (Inr [ada, bea]) []) =
      Some \<lparr>summary_total = 2, summary_successful = 1, summary_failed = 1,
             csv_written = Some [\<lparr>Company_Name = Str (lit ''Birch Capital''), Contact_Name = Str (lit ''Bea''),
                                  Email_Content = lit ''Dear Bea,''\<rparr>]\<rparr>"
    by (simp add: run_simps fails_thrice_def live_args_def ada_def bea_def)
  with m s show ?thesis by simp
qed

text \<open>
  C7. A row whose contact-name cell is the empty string or NaN, or whose column is
  missing, leaves no mark on a run (and so does a row whose contact name is zero or
  False): when such a row is among the rows considered, the run (summary, output and
  effects) is the run over the considered rows without it. Moreover the contact name of
  every entry of the output passes the presence test: it is not empty and not NaN.
\<close>

theorem row_without_name_is_skipped:
  assumes "\<not> has_contact_name r" and "considered a df = xs @ r # ys"
  shows "main cl env a (Inr df) w = main cl env (a\<lparr>limit := 0\<rparr>) (Inr (xs @ ys)) w
    \<and> (\<forall>res w'. main cl env a (Inr df) w = (Some res, w') \<longrightarrow>
          (\<forall>gs. csv_written res = Some gs \<longrightarrow>
             (\<forall>g \<in> set gs. truthy (Contact_Name g) \<and> \<not> isna (Contact_Name g))))"
proof
  have "main cl env a (Inr df) w = main cl env (a\<lparr>limit := 0\<rparr>) (Inr (xs @ r # ys)) w"
    using assms(2) by (simp add: main_considered [of cl env a])
  also have "\<dots> = main cl env (a\<lparr>limit := 0\<rparr>) (Inr (xs @ ys)) w"
    using assms(1) by (simp add: main_def process_rows_append process_row_skip)
  finally show "main cl env a (Inr df) w = main cl env (a\<lparr>limit := 0\<rparr>) (Inr (xs @ ys)) w" .
next
  have "\<forall>g \<in> set (output_data (process_rows cl env a (considered a df) (start w))).
      truthy (Contact_Name g) \<and> \<not> isna (Contact_Name g)"
    by (rule output_named_rows) (simp add: start_def)
  then show "\<forall>res w'. main cl env a (Inr df) w = (Some res, w') \<longrightarrow>
          (\<forall>gs. csv_written res = Some gs \<longrightarrow>
             (\<forall>g \<in> set gs. truthy (Contact_Name g) \<and> \<not> isna (Contact_Name g)))"
    by (auto simp: main_run Let_def split: if_splits)
qed

theorem row_without_name_is_skipped_witness:
  "\<not> has_contact_name nameless
   \<and> considered (live_args\<lparr>limit := 2\<rparr>) [ada, nameless, bea] = [ada] @ nameless # []
   \<and> main fails_twice Map.empty (live_args\<lparr>limit := 2\<rparr>) (Inr [ada, nameless, bea]) [] =
       main fails_twice Map.empty (live_args\<lparr>limit := 0\<rparr>) (Inr [ada]) []
   \<and> fst (main fails_twice Map.empty (live_args\<lparr>limit := 2\<rparr>) (Inr [ada, nameless, bea]) []) =
       Some \<lparr>summary_total = 1, summary_successful = 1, summary_failed = 0,
             csv_written = Some [\<lparr>Company_Name = Str (lit ''Acme Credit''), Contact_Name = Str (lit ''Ada''),
                                  Email_Content = lit ''Dear Ada,''\<rparr>]\<rparr>"
proof -
  have c: "considered (live_args\<lparr>limit := 2\<rparr>) [ada, nameless, bea] = [ada] @ nameless # []"
    by (simp add: considered_def)
  have m: "main fails_twice Map.empty (live_args\<lparr>limit := 2\<rparr>) (Inr [ada, nameless, bea]) [] =
       main fails_twice Map.empty (live_args\<lparr>limit := 0\<rparr>) (Inr [ada]) []"
    using row_without_name_is_skipped [OF named_examples(3) c, of fails_twice Map.empty "[]"]
    by simp
  have "fst (main fails_twice Map.empty (live_args\<lparr>limit := 0\<rparr>) (Inr [ada]) []) =
       Some \<lparr>summary_total = 1, summary_successful = 1, summary_failed = 0,
             csv_written = Some [\<lparr>Company_Name = Str (lit ''Acme Credit''), Contact_Name = Str (lit ''Ada''),
                                  Email_Content = lit ''Dear Ada,''\<rparr>]\<rparr>"
    by (simp add: run_simps fails_twice_def live_args_def ada_def)
  with c m named_examples(3) show ?thesis by simp
qed

text \<open>
  C8. With a positive limit N the run is the run without a limit over the first N rows
  of the input: the rows are cut before the loop tests any contact name, and what the
  input holds beyond its first N rows has no influence on the run.
\<close>

theorem limit_keeps_first_rows:
  assumes "0 < limit a"
  shows "main cl env a (Inr df) w =
           main cl env (a\<lparr>limit := 0\<rparr>) (Inr (take (nat (limit a)) df)) w
    \<and> (\<forall>df'. take (nat (limit a)) df' = take (nat (limit a)) df \<longrightarrow>
          main cl env a (Inr df') w = main cl env a (Inr df) w)"
  using assms by (simp add: main_considered [of cl env a] considered_def)

theorem limit_keeps_first_rows_witness:
  "0 < limit (live_args\<lparr>limit := 1\<rparr>)
   \<and> main fails_twice Map.empty (live_args\<lparr>limit := 1\<rparr>) (Inr [nameless, ada, bea]) [] =
       main fails_twice Map.empty (live_args\<lparr>limit := 0\<rparr>) (Inr [nameless]) []
   \<and> main fails_twice Map.empty (live_args\<lparr>limit := 1\<rparr>) (Inr [nameless]) [] =
       main fails_twice Map.empty (live_args\<lparr>limit := 1\<rparr>) (Inr [nameless, ada, bea]) []
   \<and> fst (main fails_twice Map.empty (live_args\<lparr>limit := 1\<rparr>) (Inr [nameless, ada, bea]) []) =
       Some \<lparr>summary_total = 0, summary_successful = 0, summary_failed = 0, csv_written = None\<rparr>"
proof -
  have l: "0 < limit (live_args\<lparr>limit := 1\<rparr>)"
    by simp
  note t = limit_keeps_first_rows [OF l, of fails_twice Map.empty "[nameless, ada, bea]" "[]"]
  from t have m: "main fails_twice Map.empty (live_args\<lparr>limit := 1\<rparr>) (Inr [nameless, ada, bea]) [] =
       main fails_twice Map.empty (live_args\<lparr>limit := 0\<rparr>) (Inr [nameless]) []"
    by simp
  from t have "take (nat (limit (live_args\<lparr>limit := 1\<rparr>))) [nameless] =
      take (nat (limit (live_args\<lparr>limit := 1\<rparr>))) [nameless, ada, bea] \<longrightarrow>
      main fails_twice Map.empty (live_args\<lparr>limit := 1\<rparr>) (Inr [nameless]) [] =
       main fails_twice Map.empty (live_args\<lparr>limit := 1\<rparr>) (Inr [nameless, ada, bea]) []"
    by blast
  then have n: "main fails_twice Map.empty (live_args\<lparr>limit := 1\<rparr>) (Inr [nameless]) [] =
       main fails_twice Map.empty (live_args\<lparr>limit := 1\<rparr>) (Inr [nameless, ada, bea]) []"
    by simp
  have "fst (main fails_twice Map.empty (live_args\<lparr>limit := 0\<rparr>) (Inr [nameless]) []) =
       Some \<lparr>summary_total = 0, summary_successful = 0, summary_failed = 0, csv_written = None\<rparr>"
    by (simp add: run_simps live_args_def nameless_def)
  with l m n show ?thesis by simp
qed

text \<open>
  C9, as the code has it. In a live run the fixed wait of half a second follows only a
  row whose content passed the test of line 158: the \<^verbatim>\<open>time.sleep(0.5)\<close> of line 168
  stands inside that branch. After a row whose generation failed (an error marker, or a
  reply that is empty after stripping) no fixed wait happens, and the first call for the
  next row follows the last call for the failed row at once.
\<close>

theorem fixed_delay_only_after_success:
  assumes "has_contact_name r" and "\<not> dry_run a"
    and "generate_email cl env (company_of r) (industry_of r) (contact_of r) (position_of r)
           (notes_of r) (model a) (trace st) = (email_content, w)"
  shows "trace (process_row cl env a r st) =
           (if usable email_content then w @ [Sleep (1 / 2)] else w)"
  by (simp add: live_row [OF assms])

theorem fixed_delay_only_after_success_witness:
  "has_contact_name ada \<and> \<not> dry_run live_args
   \<and> generate_email fails_twice Map.empty (company_of ada) (industry_of ada) (contact_of ada)
        (position_of ada) (notes_of ada) (model live_args) (trace (start [])) =
       (Some (lit ''Dear Ada,''),
        [Call (row_request Map.empty live_args ada), Sleep 5,
         Call (row_request Map.empty live_args ada), Sleep 10,
         Call (row_request Map.empty live_args ada)])
   \<and> usable (Some (lit ''Dear Ada,''))
   \<and> trace (process_row fails_twice Map.empty live_args ada (start [])) =
       [Call (row_request Map.empty live_args ada), Sleep 5,
        Call (row_request Map.empty live_args ada), Sleep 10,
        Call (row_request Map.empty live_args ada), Sleep (1 / 2)]"
proof -
  have d: "\<not> dry_run live_args"
    by (simp add: live_args_def)
  have g: "generate_email fails_twice Map.empty (company_of ada) (industry_of ada) (contact_of ada)
        (position_of ada) (notes_of ada) (model live_args) (trace (start [])) =
       (Some (lit ''Dear Ada,''),
        [Call (row_request Map.empty live_args ada), Sleep 5,
         Call (row_request Map.empty live_args ada), Sleep 10,
         Call (row_request Map.empty live_args ada)])"
    unfolding generate_named [OF named_examples(1)] attempts_list
    by (simp add: fails_twice_def max_retries_def strip_def isspace_def start_def lit_def)
  have u: "usable (Some (lit ''Dear Ada,''))"
    by (simp add: usable_def startswith_def lit_def)
  from fixed_delay_only_after_success [OF named_examples(1) d g] u
  have "trace (process_row fails_twice Map.empty live_args ada (start [])) =
       [Call (row_request Map.empty live_args ada), Sleep 5,
        Call (row_request Map.empty live_args ada), Sleep 10,
        Call (row_request Map.empty live_args ada), Sleep (1 / 2)]"
    by simp
  with named_examples(1) d g u show ?thesis by simp
qed

text \<open>
  The claim C9 as stated fails: in the live run over two contacts where the three
  attempts for the first one raise, the trace shows the third call for the first contact
  directly followed by the call for the second one; the only wait of half a second is the
  one after the second contact, whose generation succeeded.
\<close>

theorem no_fixed_delay_after_failed_row:
  "map waited (snd (main fails_thrice Map.empty live_args (Inr [ada, bea]) [])) =
     [None, Some 5, None, Some 10, None, None, Some (1 / 2)]"
  by (simp add: run_simps fails_thrice_def live_args_def ada_def bea_def)

text \<open>
  C10. When the contact name is the empty string or NaN, \<open>generate_email\<close> returns None
  (neither a text nor the marker string) and leaves the trace as it was: no call, no
  wait. The test of line 158 rejects None.
\<close>

theorem generate_email_without_name_returns_None:
  assumes "contact_name = Str [] \<or> contact_name = NaN"
  shows "generate_email cl env company_name industry_focus contact_name position notes mdl w =
           (None, w)
    \<and> \<not> usable (fst (generate_email cl env company_name industry_focus contact_name position
                         notes mdl w))"
  using assms by (auto simp: generate_email_def usable_def)

theorem generate_email_without_name_returns_None_witness:
  "generate_email answers_with_prefix Map.empty (Str (lit ''Cedar Lending'')) NaN NaN NaN NaN (lit ''gpt-4'') [] =
     (None, [])
   \<and> generate_email answers_with_prefix Map.empty (Str (lit ''Cedar Lending'')) NaN (Str []) NaN NaN
       (lit ''gpt-4'') [] = (None, [])
   \<and> \<not> usable None"
  using generate_email_without_name_returns_None
      [of NaN answers_with_prefix Map.empty "Str (lit ''Cedar Lending'')" NaN NaN NaN "lit ''gpt-4''" "[]"]
    generate_email_without_name_returns_None
      [of "Str []" answers_with_prefix Map.empty "Str (lit ''Cedar Lending'')" NaN NaN NaN "lit ''gpt-4''" "[]"]
  by auto

end
